theory Spec2Isabelle
  imports Main "HOL-Library.Word"
begin

section \<open>Command batches and transactions (package redis, MultiCommand)\<close>

subsection \<open>Replies\<close>

text \<open>
  The batch code reads and writes two fields of a \<^verbatim>\<open>*Reply\<close>: \<^verbatim>\<open>Error\<close> (a pointer,
  nil when the reply reports no error) and \<^verbatim>\<open>elems\<close> (the nested replies, a slice; nil
  and empty are both the empty list here). Everything else a reply holds (its type tag, a
  scalar payload) is never touched by the batch code and is kept in \<open>rest\<close>.
  Pointers to replies are taken to be non-nil.
\<close>

datatype redis_error = RedisError string

datatype 'v Reply = MkReply (Error: "redis_error option") (elems: "'v Reply list") (rest: 'v)

text \<open>The two assignments \<^verbatim>\<open>r.elems = ...\<close> and \<^verbatim>\<open>r.Error = ...\<close>.\<close>

definition set_elems :: "'v Reply \<Rightarrow> 'v Reply list \<Rightarrow> 'v Reply" where
  "set_elems r es = MkReply (Error r) es (rest r)"

definition set_Error :: "'v Reply \<Rightarrow> redis_error option \<Rightarrow> 'v Reply" where
  "set_Error r e = MkReply e (elems r) (rest r)"

text \<open>
  Modelled from the spec: \<^verbatim>\<open>newError\<close> is declared outside the sources at hand; the spec
  speaks of a synthetic error carrying the message "unknown transaction error", so
  \<^verbatim>\<open>newError\<close> builds the error value that carries the given message.
\<close>

definition newError :: "string \<Rightarrow> redis_error" where
  "newError msg = RedisError msg"

text \<open>
  Modelled from the spec: \<^verbatim>\<open>Reply.At\<close> is declared outside the sources at hand. The spec
  has the batch "extract the reply corresponding to the commit marker (the last reply in
  the batch)", a lookup by position in the element sequence. A position outside the
  sequence has no reply: \<open>None\<close>.
\<close>

definition At :: "'v Reply \<Rightarrow> int \<Rightarrow> 'v Reply option" where
  "At r i = (if 0 \<le> i \<and> i < int (length (elems r)) then Some (elems r ! nat i) else None)"

subsection \<open>The batch\<close>

type_synonym cmdName = string

text \<open>A queued command: its name and its arguments, which are opaque values.\<close>

type_synonym 'a command = "cmdName \<times> 'a list"

text \<open>
  \<^verbatim>\<open>MultiCommand\<close>: the field \<^verbatim>\<open>c\<close> is written \<open>c_conn\<close>; it holds the state of the
  connection the batch borrows.
\<close>

record ('a, 'c) MultiCommand =
  transaction :: bool
  c_conn :: 'c
  cmds :: "'a command list"

definition newMultiCommand :: "bool \<Rightarrow> 'c \<Rightarrow> ('a, 'c) MultiCommand" where
  "newMultiCommand t c = \<lparr>transaction = t, c_conn = c, cmds = []\<rparr>"

definition command :: "('a, 'c) MultiCommand \<Rightarrow> cmdName \<Rightarrow> 'a list \<Rightarrow> ('a, 'c) MultiCommand" where
  "command mc cmd args = mc\<lparr>cmds := cmds mc @ [(cmd, args)]\<rparr>"

definition Command :: "('a, 'c) MultiCommand \<Rightarrow> string \<Rightarrow> 'a list \<Rightarrow> ('a, 'c) MultiCommand" where
  "Command mc cmd args = command mc cmd args"

text \<open>
  Modelled from the spec: \<^verbatim>\<open>Multi\<close> and \<^verbatim>\<open>Exec\<close> are declared outside the sources at
  hand. By the spec they "enqueue a begin-transaction marker command" and "enqueue a
  commit-transaction marker command". The spec does not name the markers; they carry the
  names of the two methods and no arguments.
\<close>

definition cmdMulti :: cmdName where
  "cmdMulti = ''MULTI''"

definition cmdExec :: cmdName where
  "cmdExec = ''EXEC''"

definition Multi :: "('a, 'c) MultiCommand \<Rightarrow> ('a, 'c) MultiCommand" where
  "Multi mc = command mc cmdMulti []"

definition Exec :: "('a, 'c) MultiCommand \<Rightarrow> ('a, 'c) MultiCommand" where
  "Exec mc = command mc cmdExec []"

text \<open>
  The connection's \<^verbatim>\<open>multiCommand\<close> (send the commands as one pipeline, collect the
  aggregate reply) is declared outside the sources at hand and is a parameter:
  from the connection's state and the commands it gives the reply and the connection's
  new state.
\<close>

type_synonym ('a, 'c, 'v) multiCommand = "'c \<Rightarrow> 'a command list \<Rightarrow> 'v Reply \<times> 'c"

text \<open>
  \<^verbatim>\<open>Flush\<close> returns the reply; the batch, mutated in place in Go, is returned with it.
\<close>

definition Flush ::
  "('a, 'c, 'v) multiCommand \<Rightarrow> ('a, 'c) MultiCommand \<Rightarrow> 'v Reply \<times> ('a, 'c) MultiCommand" where
  "Flush multiCommand mc =
     (case multiCommand (c_conn mc) (cmds mc) of
        (r, c') \<Rightarrow> (r, mc\<lparr>c_conn := c', cmds := []\<rparr>))"

text \<open>
  \<^verbatim>\<open>process\<close> cannot return when there is no reply at the position it asks for: either
  \<^verbatim>\<open>At\<close> panics or the read of \<^verbatim>\<open>execReply.Error\<close> does.
\<close>

datatype panic = OutOfRange int

text \<open>
  \<^verbatim>\<open>userCommands\<close> receives the batch and may queue commands on it (or flush it); it is a
  function from the batch to the batch it leaves behind. The flag \<^verbatim>\<open>mc.transaction\<close> is
  read where the source reads it: before and after \<^verbatim>\<open>userCommands\<close>.
\<close>

definition process ::
  "('a, 'c, 'v) multiCommand \<Rightarrow> ('a, 'c) MultiCommand \<Rightarrow>
   (('a, 'c) MultiCommand \<Rightarrow> ('a, 'c) MultiCommand) \<Rightarrow>
   panic + 'v Reply \<times> ('a, 'c) MultiCommand" where
  "process multiCommand mc userCommands =
     (let mc1 = (if transaction mc then Multi mc else mc);
          mc2 = userCommands mc1
      in if \<not> transaction mc2 then
           (case multiCommand (c_conn mc2) (cmds mc2) of
              (r, c') \<Rightarrow> Inr (r, mc2\<lparr>c_conn := c'\<rparr>))
         else
           (let mc3 = Exec mc2
            in case multiCommand (c_conn mc3) (cmds mc3) of
                 (r, c') \<Rightarrow>
                   (case At r (int (length (elems r)) - 1) of
                      None \<Rightarrow> Inl (OutOfRange (int (length (elems r)) - 1))
                    | Some execReply \<Rightarrow>
                        Inr (if Error execReply = None then set_elems r (elems execReply)
                             else if Error execReply \<noteq> None then set_Error r (Error execReply)
                             else set_Error r (Some (newError ''unknown transaction error'')),
                             mc3\<lparr>c_conn := c'\<rparr>))))"

section \<open>Connections (package radix)\<close>

subsection \<open>Time, errors and streams\<close>

text \<open>
  Of the standard library only what the connection code uses is modelled.
  A \<^verbatim>\<open>time.Time\<close> is an instant counted in nanoseconds, a \<^verbatim>\<open>time.Duration\<close> is a
  signed 64-bit count of nanoseconds, and \<^verbatim>\<open>Time.Add\<close> moves an instant by a duration.
\<close>

type_synonym time = int

type_synonym Duration = "64 word"

definition time_Add :: "time \<Rightarrow> Duration \<Rightarrow> time" where
  "time_Add t d = t + sint d"

text \<open>
  An \<^verbatim>\<open>error\<close> value either implements \<^verbatim>\<open>net.Error\<close> or does not; the type assertion
  \<^verbatim>\<open>err.(net.Error)\<close> succeeds on the former only, and never on nil.
\<close>

datatype go_error = NetError string | OtherError string

fun is_net_Error :: "go_error option \<Rightarrow> bool" where
  "is_net_Error None = False"
| "is_net_Error (Some (NetError msg)) = True"
| "is_net_Error (Some (OtherError msg)) = False"

text \<open>
  A \<^verbatim>\<open>net.Conn\<close> value is either a stream of some other implementation, known by its
  identity, or a pointer to a \<^verbatim>\<open>timeoutConn\<close> with its two fields.
\<close>

datatype netConn = RawConn nat | TimeoutConn (tc_Conn: netConn) (tc_timeout: Duration)

text \<open>
  The state behind the streams: the clock that \<^verbatim>\<open>time.Now\<close> reads, the calls the raw
  streams have received (oldest first, each with the stream's identity), and what a raw
  stream returns for a call, which may depend on everything it received before. A
  \<^verbatim>\<open>Read\<close> is recorded with the length of the slice it is given and returns the count
  and the error; the bytes themselves are not modelled. Buffers and decoded values live
  in the extension of the record.
\<close>

datatype call = ReadCall nat | WriteCall "8 word list" | SetDeadlineCall time | CloseCall

record world =
  now :: time
  calls :: "(nat \<times> call) list"
  answer :: "(nat \<times> call) list \<Rightarrow> int \<times> go_error option"

definition raw_call ::
  "nat \<Rightarrow> call \<Rightarrow> 'z world_scheme \<Rightarrow> (int \<times> go_error option) \<times> 'z world_scheme" where
  "raw_call i cl w = (let l = calls w @ [(i, cl)] in (answer w l, w\<lparr>calls := l\<rparr>))"

text \<open>
  \<^verbatim>\<open>SetDeadline\<close> and \<^verbatim>\<open>Close\<close> of a \<^verbatim>\<open>timeoutConn\<close> are the promoted methods of the
  embedded stream.
\<close>

fun conn_SetDeadline ::
  "netConn \<Rightarrow> time \<Rightarrow> 'z world_scheme \<Rightarrow> go_error option \<times> 'z world_scheme" where
  "conn_SetDeadline (RawConn i) t w =
     (case raw_call i (SetDeadlineCall t) w of ((n, err), w') \<Rightarrow> (err, w'))"
| "conn_SetDeadline (TimeoutConn c timeout) t w = conn_SetDeadline c t w"

fun conn_Close :: "netConn \<Rightarrow> 'z world_scheme \<Rightarrow> go_error option \<times> 'z world_scheme" where
  "conn_Close (RawConn i) w =
     (case raw_call i CloseCall w of ((n, err), w') \<Rightarrow> (err, w'))"
| "conn_Close (TimeoutConn c timeout) w = conn_Close c w"

subsection \<open>The deadline-enforcing stream\<close>

text \<open>
  \<^verbatim>\<open>setDeadline\<close>, \<^verbatim>\<open>Read\<close> and \<^verbatim>\<open>Write\<close> of a \<^verbatim>\<open>timeoutConn\<close> take its two fields.
  The error that \<^verbatim>\<open>SetDeadline\<close> returns is dropped, as in the source.
\<close>

definition setDeadline :: "netConn \<Rightarrow> Duration \<Rightarrow> 'z world_scheme \<Rightarrow> 'z world_scheme" where
  "setDeadline c timeout w =
     (if 0 <s timeout then snd (conn_SetDeadline c (time_Add (now w) timeout) w) else w)"

fun conn_Read ::
  "netConn \<Rightarrow> nat \<Rightarrow> 'z world_scheme \<Rightarrow> (int \<times> go_error option) \<times> 'z world_scheme"
and timeoutConn_Read ::
  "netConn \<Rightarrow> Duration \<Rightarrow> nat \<Rightarrow> 'z world_scheme \<Rightarrow> (int \<times> go_error option) \<times> 'z world_scheme"
where
  "conn_Read (RawConn i) n w = raw_call i (ReadCall n) w"
| "conn_Read (TimeoutConn c timeout) n w = timeoutConn_Read c timeout n w"
| "timeoutConn_Read c timeout n w = conn_Read c n (setDeadline c timeout w)"

fun conn_Write ::
  "netConn \<Rightarrow> 8 word list \<Rightarrow> 'z world_scheme \<Rightarrow> (int \<times> go_error option) \<times> 'z world_scheme"
and timeoutConn_Write ::
  "netConn \<Rightarrow> Duration \<Rightarrow> 8 word list \<Rightarrow> 'z world_scheme \<Rightarrow>
   (int \<times> go_error option) \<times> 'z world_scheme"
where
  "conn_Write (RawConn i) b w = raw_call i (WriteCall b) w"
| "conn_Write (TimeoutConn c timeout) b w = timeoutConn_Write c timeout b w"
| "timeoutConn_Write c timeout b w = conn_Write c b (setDeadline c timeout w)"

subsection \<open>The protocol connection\<close>

text \<open>
  The buffered reader and writer are known by the stream they wrap; what they hold in
  their buffers is part of the state.
\<close>

record bufio_Reader =
  rd :: netConn

record bufio_Writer =
  wr :: netConn

record bufio_ReadWriter =
  Reader :: bufio_Reader
  Writer :: bufio_Writer

definition bufio_NewReader :: "netConn \<Rightarrow> bufio_Reader" where
  "bufio_NewReader conn = \<lparr>rd = conn\<rparr>"

definition bufio_NewWriter :: "netConn \<Rightarrow> bufio_Writer" where
  "bufio_NewWriter conn = \<lparr>wr = conn\<rparr>"

definition bufio_NewReadWriter :: "bufio_Reader \<Rightarrow> bufio_Writer \<Rightarrow> bufio_ReadWriter" where
  "bufio_NewReadWriter r w = \<lparr>Reader = r, Writer = w\<rparr>"

record connWrap =
  Conn :: netConn
  brw :: bufio_ReadWriter

text \<open>
  The capabilities the connection is handed are opaque: each is the one method it has,
  a function on the state that returns an error or nil.
\<close>

datatype 'z Marshaler =
  Marshaler (MarshalRESP: "bufio_ReadWriter \<Rightarrow> 'z world_scheme \<Rightarrow> go_error option \<times> 'z world_scheme")

datatype 'z Unmarshaler =
  Unmarshaler (UnmarshalRESP: "bufio_Reader \<Rightarrow> 'z world_scheme \<Rightarrow> go_error option \<times> 'z world_scheme")

datatype 'z Action =
  Action (Run: "connWrap \<Rightarrow> 'z world_scheme \<Rightarrow> go_error option \<times> 'z world_scheme")

definition NewConn :: "netConn \<Rightarrow> connWrap" where
  "NewConn conn =
     \<lparr>Conn = conn, brw = bufio_NewReadWriter (bufio_NewReader conn) (bufio_NewWriter conn)\<rparr>"

definition Do :: "connWrap \<Rightarrow> 'z Action \<Rightarrow> 'z world_scheme \<Rightarrow> go_error option \<times> 'z world_scheme" where
  "Do cw a w = Run a cw w"

text \<open>
  \<^verbatim>\<open>Encode\<close>: the deferred function reads the variable \<^verbatim>\<open>err\<close> when \<^verbatim>\<open>Encode\<close>
  returns, so it sees the error of the flush when the flush was reached. \<^verbatim>\<open>cw.Close()\<close>
  is the promoted \<^verbatim>\<open>Close\<close> of the embedded stream; what it returns is dropped. The
  library's \<^verbatim>\<open>Flush\<close> of the buffered writer is the parameter \<open>brw_Flush\<close>.
\<close>

definition Encode ::
  "(bufio_Writer \<Rightarrow> 'z world_scheme \<Rightarrow> go_error option \<times> 'z world_scheme) \<Rightarrow>
   connWrap \<Rightarrow> 'z Marshaler \<Rightarrow> 'z world_scheme \<Rightarrow> go_error option \<times> 'z world_scheme" where
  "Encode brw_Flush cw m w =
     (let deferred = (\<lambda>err w'. if is_net_Error err then snd (conn_Close (Conn cw) w') else w')
      in case MarshalRESP m (brw cw) w of
           (err, w1) \<Rightarrow>
             if err \<noteq> None then (err, deferred err w1)
             else (case brw_Flush (Writer (brw cw)) w1 of
                     (err', w2) \<Rightarrow> (err', deferred err' w2)))"

definition Decode ::
  "connWrap \<Rightarrow> 'z Unmarshaler \<Rightarrow> 'z world_scheme \<Rightarrow> go_error option \<times> 'z world_scheme" where
  "Decode cw u w =
     (case UnmarshalRESP u (Reader (brw cw)) w of
        (err, w1) \<Rightarrow> (err, if is_net_Error err then snd (conn_Close (Conn cw) w1) else w1))"

definition NetConn :: "connWrap \<Rightarrow> netConn" where
  "NetConn cw = Conn cw"

text \<open>
  \<^verbatim>\<open>net.Dial\<close> and \<^verbatim>\<open>net.DialTimeout\<close> are parameters: they give an error or a stream.
\<close>

definition Dial ::
  "(string \<Rightarrow> string \<Rightarrow> go_error + netConn) \<Rightarrow> string \<Rightarrow> string \<Rightarrow> go_error + connWrap" where
  "Dial net_Dial network addr =
     (case net_Dial network addr of
        Inl err \<Rightarrow> Inl err
      | Inr c \<Rightarrow> Inr (NewConn c))"

definition DialTimeout ::
  "(string \<Rightarrow> string \<Rightarrow> Duration \<Rightarrow> go_error + netConn) \<Rightarrow>
   string \<Rightarrow> string \<Rightarrow> Duration \<Rightarrow> go_error + connWrap" where
  "DialTimeout net_DialTimeout network addr timeout =
     (case net_DialTimeout network addr timeout of
        Inl err \<Rightarrow> Inl err
      | Inr c \<Rightarrow> Inr (NewConn (TimeoutConn c timeout)))"

text \<open>
  A stream counts as closed once the raw stream at its bottom has received \<^verbatim>\<open>Close\<close>.
\<close>

fun raw_of :: "netConn \<Rightarrow> nat" where
  "raw_of (RawConn i) = i"
| "raw_of (TimeoutConn c timeout) = raw_of c"

definition closed :: "netConn \<Rightarrow> 'z world_scheme \<Rightarrow> bool" where
  "closed c w = ((raw_of c, CloseCall) \<in> set (calls w))"

section \<open>Stub servers and inputs for the scenarios\<close>

text \<open>
  Replies of the stubs carry their wire form in \<open>rest\<close>: \<open>+OK\<close> and \<open>+QUEUED\<close> are
  status replies, \<open>$v\<close> is the value \<open>v\<close>, \<open>*\<close> is a sequence, \<open>$-1\<close> is the nil reply.
  The state of a stub connection counts the pipelines it was sent.
\<close>

text \<open>
  A server in a transaction: it acknowledges the begin marker, queues each command, and
  answers the commit marker with the given reply.
\<close>

definition pipeline_stub :: "string Reply \<Rightarrow> (string, nat, string) multiCommand" where
  "pipeline_stub commit c cs =
     (MkReply None
        (MkReply None [] ''+OK'' # map (\<lambda>cmd. MkReply None [] ''+QUEUED'') (tl (butlast cs)) @ [commit])
        ''*'',
      Suc c)"

text \<open>A server outside a transaction: one reply per command, in order.\<close>

definition echo_stub :: "(string, nat, string) multiCommand" where
  "echo_stub c cs = (MkReply None (map (\<lambda>cmd. MkReply None [] (fst cmd)) cs) ''*'', Suc c)"

text \<open>A connection that fails before any reply is decoded.\<close>

definition broken_stub :: "(string, nat, string) multiCommand" where
  "broken_stub c cs = (MkReply (Some (RedisError ''EOF'')) [] ''-'', c)"

text \<open>The user's commands \<^verbatim>\<open>SET k v\<close>, \<^verbatim>\<open>GET k\<close>, and \<^verbatim>\<open>GET k\<close> alone.\<close>

definition set_get :: "(string, nat) MultiCommand \<Rightarrow> (string, nat) MultiCommand" where
  "set_get mc = Command (Command mc ''SET'' [''k'', ''v'']) ''GET'' [''k'']"

definition get_k :: "(string, nat) MultiCommand \<Rightarrow> (string, nat) MultiCommand" where
  "get_k mc = Command mc ''GET'' [''k'']"

text \<open>
  A state in which no stream has been called yet, whose raw streams answer every call
  with success, and one whose raw streams fail every \<^verbatim>\<open>Write\<close> with a timeout.
\<close>

definition quiet_world :: world where
  "quiet_world = \<lparr>now = 1000, calls = [], answer = (\<lambda>l. (0, None))\<rparr>"

definition stalled_world :: world where
  "stalled_world =
     \<lparr>now = 1000, calls = [],
      answer = (\<lambda>l. case snd (last l) of
                       WriteCall b \<Rightarrow> (0, Some (NetError ''i/o timeout''))
                     | _ \<Rightarrow> (0, None))\<rparr>"

text \<open>
  A marshaler that writes its bytes straight through to the stream, one that rejects its
  value, an unmarshaler that cannot parse what it reads, one that finds a whole reply in
  the reader's buffer, an action that has nothing to do, and a flush with nothing left to
  write.
\<close>

definition write_through :: "unit Marshaler" where
  "write_through =
     Marshaler (\<lambda>rw w. case conn_Write (wr (Writer rw)) [42] w of ((n, err), w') \<Rightarrow> (err, w'))"

definition reject_value :: "unit Marshaler" where
  "reject_value = Marshaler (\<lambda>rw w. (Some (OtherError ''malformed value''), w))"

definition garbled_reply :: "unit Unmarshaler" where
  "garbled_reply = Unmarshaler (\<lambda>r w. (Some (OtherError ''malformed value''), w))"

definition buffered_reply :: "unit Unmarshaler" where
  "buffered_reply = Unmarshaler (\<lambda>r w. (None, w))"

definition idle_action :: "unit Action" where
  "idle_action = Action (\<lambda>cw w. (None, w))"

definition empty_flush :: "bufio_Writer \<Rightarrow> world \<Rightarrow> go_error option \<times> world" where
  "empty_flush bw w = (None, w)"

section \<open>Properties of the batch\<close>

lemma At_last: "elems r \<noteq> [] \<Longrightarrow> At r (int (length (elems r)) - 1) = Some (last (elems r))"
  by (cases "elems r" rule: rev_cases) (simp_all add: At_def nth_append)

lemma At_in_bounds: "(At r (int (length (elems r)) - 1) \<noteq> None) = (1 \<le> length (elems r))"
  by (cases "elems r") (simp_all add: At_def)

lemma Exec_fields:
  "transaction (Exec mc) = transaction mc"
  "c_conn (Exec mc) = c_conn mc"
  "cmds (Exec mc) = cmds mc @ [(cmdExec, [])]"
  by (simp_all add: Exec_def command_def)

lemma Multi_fields:
  "transaction (Multi mc) = transaction mc"
  "c_conn (Multi mc) = c_conn mc"
  "cmds (Multi mc) = cmds mc @ [(cmdMulti, [])]"
  by (simp_all add: Multi_def command_def)

text \<open>What \<open>process\<close> computes in transactional mode, and outside it.\<close>

lemma process_transaction:
  assumes "transaction mc" and "transaction (userCommands (Multi mc))"
    and "multiCommand (c_conn (userCommands (Multi mc)))
           (cmds (userCommands (Multi mc)) @ [(cmdExec, [])]) = (r, c')"
  shows "process multiCommand mc userCommands =
     (case At r (int (length (elems r)) - 1) of
        None \<Rightarrow> Inl (OutOfRange (int (length (elems r)) - 1))
      | Some execReply \<Rightarrow>
          Inr (if Error execReply = None then set_elems r (elems execReply)
               else set_Error r (Error execReply),
               (Exec (userCommands (Multi mc)))\<lparr>c_conn := c'\<rparr>))"
  using assms by (simp add: process_def Let_def Exec_fields split: option.split)

lemma process_plain:
  assumes "\<not> transaction mc" and "\<not> transaction (userCommands mc)"
    and "multiCommand (c_conn (userCommands mc)) (cmds (userCommands mc)) = (r, c')"
  shows "process multiCommand mc userCommands = Inr (r, (userCommands mc)\<lparr>c_conn := c'\<rparr>)"
  using assms by (simp add: process_def Let_def)

text \<open>
  The branch that would set the synthetic error is never taken: whatever \<open>process\<close>
  returns, its top-level error is the one the pipeline reported or the one of the commit
  step's reply.
\<close>

lemma process_error_origin:
  assumes "transaction mc" and "transaction (userCommands (Multi mc))"
    and "multiCommand (c_conn (userCommands (Multi mc)))
           (cmds (userCommands (Multi mc)) @ [(cmdExec, [])]) = (r, c')"
    and "process multiCommand mc userCommands = Inr (r', mc')"
  shows "elems r \<noteq> [] \<and> (Error r' = Error r \<or> Error r' = Error (last (elems r)))"
proof -
  from assms(4) process_transaction [of mc userCommands multiCommand r c', OF assms(1-3)]
  have nonempty: "elems r \<noteq> []"
    by (auto simp add: At_def)
  with assms(4) process_transaction [of mc userCommands multiCommand r c', OF assms(1-3)]
  show ?thesis
    by (auto simp add: At_last set_elems_def set_Error_def split: if_splits)
qed

lemma Flush_clears_queue: "cmds (snd (Flush multiCommand mc)) = []"
  by (simp add: Flush_def split: prod.split)

lemma process_keeps_queue:
  assumes "process multiCommand mc userCommands = Inr (r, mc')"
  shows "cmds mc' =
     (if transaction mc
      then (if transaction (userCommands (Multi mc))
            then cmds (userCommands (Multi mc)) @ [(cmdExec, [])]
            else cmds (userCommands (Multi mc)))
      else (if transaction (userCommands mc)
            then cmds (userCommands mc) @ [(cmdExec, [])]
            else cmds (userCommands mc)))"
  using assms
  by (auto simp add: process_def Let_def Exec_fields split: prod.splits option.splits if_splits)

text \<open>
  Claim C9. In transactional mode \<open>process\<close> asks for the reply at position
  (number of top-level elements - 1). That position is inside the element sequence only
  when the aggregate reply has at least one element. When the pipeline yields a reply
  with no elements, the position is -1, there is no reply there, and \<open>process\<close> does not
  return.
\<close>

theorem process_exec_index_out_of_range:
  assumes "transaction mc" and "transaction (userCommands (Multi mc))"
    and "multiCommand (c_conn (userCommands (Multi mc)))
           (cmds (userCommands (Multi mc)) @ [(cmdExec, [])]) = (r, c')"
    and "elems r = []"
  shows "int (length (elems r)) - 1 = - 1
     \<and> At r (int (length (elems r)) - 1) = None
     \<and> process multiCommand mc userCommands = Inl (OutOfRange (- 1))
     \<and> ((At q (int (length (elems q)) - 1) \<noteq> None) = (1 \<le> length (elems q)))"
proof -
  have index: "int (length (elems r)) - 1 = - 1"
    using assms(4) by simp
  have absent: "At r (int (length (elems r)) - 1) = None"
    using assms(4) by (simp add: At_def)
  have stops: "process multiCommand mc userCommands = Inl (OutOfRange (- 1))"
    using process_transaction [of mc userCommands multiCommand r c'] assms by (simp add: At_def)
  from index absent stops At_in_bounds [of q] show ?thesis
    by blast
qed

theorem process_exec_index_out_of_range_witness:
  "process broken_stub (newMultiCommand True 0) get_k = Inl (OutOfRange (- 1))
   \<and> At (MkReply (Some (RedisError ''EOF'')) [] ''-'') (- 1) = None"
  using process_exec_index_out_of_range
    [of "newMultiCommand True 0" get_k broken_stub "MkReply (Some (RedisError ''EOF'')) [] ''-''" 0
      "MkReply (Some (RedisError ''EOF'')) [] ''-''"]
  by (simp add: newMultiCommand_def get_k_def Command_def command_def Multi_def broken_stub_def)

text \<open>
  Claim C4. A transactional batch with N user commands whose commit step succeeds:
  \<open>process\<close> returns as its elements the nested replies of the commit step's reply, in
  their order, in place of the pipeline's own elements (which held the replies to the
  begin and commit markers). When the server answers the commit step with one reply per
  user command, in submission order, the result has exactly these N replies.
\<close>

theorem process_commit_replies:
  fixes answers :: "'a command \<Rightarrow> 'v Reply \<Rightarrow> bool"
  assumes "transaction mc" and "transaction (userCommands (Multi mc))"
    and queued: "cmds (userCommands (Multi mc)) = cmds mc @ [(cmdMulti, [])] @ ucs"
    and sent: "multiCommand (c_conn (userCommands (Multi mc)))
                 (cmds mc @ [(cmdMulti, [])] @ ucs @ [(cmdExec, [])]) = (r, c')"
    and "elems r \<noteq> []" and "Error (last (elems r)) = None"
    and contract: "list_all2 answers ucs (elems (last (elems r)))"
  shows "(let r' = set_elems r (elems (last (elems r))) in
            process multiCommand mc userCommands =
              Inr (r', (Exec (userCommands (Multi mc)))\<lparr>c_conn := c'\<rparr>)
            \<and> elems r' = elems (last (elems r))
            \<and> length (elems r') = length ucs
            \<and> list_all2 answers ucs (elems r'))"
proof -
  from queued sent have "multiCommand (c_conn (userCommands (Multi mc)))
           (cmds (userCommands (Multi mc)) @ [(cmdExec, [])]) = (r, c')"
    by simp
  from process_transaction [of mc userCommands multiCommand r c', OF assms(1,2) this]
  have "process multiCommand mc userCommands =
      Inr (set_elems r (elems (last (elems r))), (Exec (userCommands (Multi mc)))\<lparr>c_conn := c'\<rparr>)"
    using assms(5,6) by (simp add: At_last)
  moreover have "elems (set_elems r (elems (last (elems r)))) = elems (last (elems r))"
    by (simp add: set_elems_def)
  moreover from contract have "length (elems (last (elems r))) = length ucs"
    by (simp add: list_all2_lengthD)
  ultimately show ?thesis
    using contract by (simp add: Let_def)
qed

theorem process_commit_replies_witness:
  "process (pipeline_stub (MkReply None [MkReply None [] ''+OK'', MkReply None [] ''$v''] ''*''))
     (newMultiCommand True 0) set_get =
     Inr (MkReply None [MkReply None [] ''+OK'', MkReply None [] ''$v''] ''*'',
          \<lparr>transaction = True, c_conn = 1,
             cmds = [(''MULTI'', []), (''SET'', [''k'', ''v'']), (''GET'', [''k'']), (''EXEC'', [])]\<rparr>)
   \<and> length [MkReply None [] ''+OK'', MkReply None [] ''$v'' :: string Reply] =
       length [(''SET'', [''k'', ''v'']), (''GET'', [''k''])]"
  using process_commit_replies
    [of "newMultiCommand True 0" set_get "[(''SET'', [''k'', ''v'']), (''GET'', [''k''])]"
      "pipeline_stub (MkReply None [MkReply None [] ''+OK'', MkReply None [] ''$v''] ''*'')"
      "MkReply None [MkReply None [] ''+OK'', MkReply None [] ''+QUEUED'', MkReply None [] ''+QUEUED'',
          MkReply None [MkReply None [] ''+OK'', MkReply None [] ''$v''] ''*''] ''*''"
      1
      "\<lambda>cmd rep. rest rep = (if fst cmd = ''SET'' then ''+OK'' else ''$v'')"]
  by (simp add: newMultiCommand_def set_get_def Command_def command_def Multi_def Exec_def
      cmdMulti_def cmdExec_def pipeline_stub_def set_elems_def Let_def)

text \<open>
  Claim C1, at the input where it fails. The commit step is answered with the nil reply,
  which is neither an error nor a sequence. \<open>process\<close> returns a result without any
  top-level error and with no elements; the synthetic "unknown transaction error" is not
  set.
\<close>

theorem process_malformed_commit_reply:
  "process (pipeline_stub (MkReply None [] ''$-1'')) (newMultiCommand True 0) get_k =
     Inr (MkReply None [] ''*'',
          \<lparr>transaction = True, c_conn = 1,
             cmds = [(''MULTI'', []), (''GET'', [''k'']), (''EXEC'', [])]\<rparr>)
   \<and> Error (MkReply None [] ''*'' :: string Reply) \<noteq> Some (newError ''unknown transaction error'')"
  by (simp add: process_def Let_def newMultiCommand_def get_k_def Command_def command_def
      Multi_def Exec_def cmdMulti_def cmdExec_def pipeline_stub_def At_def set_elems_def)

text \<open>
  Claim C2 as stated fails: the server answers the commit step with the error
  \<open>EXECABORT\<close>; the result of \<open>process\<close> has that error at the top level, and its
  elements are still the three replies of the pipeline, so that the reply to the user's
  command is found at position 1.
\<close>

theorem process_commit_error_counterexample:
  "process (pipeline_stub (MkReply (Some (RedisError ''EXECABORT'')) [] ''-'')) (newMultiCommand True 0)
     get_k =
     Inr (MkReply (Some (RedisError ''EXECABORT''))
            [MkReply None [] ''+OK'', MkReply None [] ''+QUEUED'',
             MkReply (Some (RedisError ''EXECABORT'')) [] ''-'']
            ''*'',
          \<lparr>transaction = True, c_conn = 1,
             cmds = [(''MULTI'', []), (''GET'', [''k'']), (''EXEC'', [])]\<rparr>)
   \<and> elems (MkReply (Some (RedisError ''EXECABORT''))
            [MkReply None [] ''+OK'', MkReply None [] ''+QUEUED'',
             MkReply (Some (RedisError ''EXECABORT'')) [] ''-'']
            ''*'') \<noteq> []
   \<and> At (MkReply (Some (RedisError ''EXECABORT''))
            [MkReply None [] ''+OK'', MkReply None [] ''+QUEUED'',
             MkReply (Some (RedisError ''EXECABORT'')) [] ''-'']
            ''*'') 1 = Some (MkReply None [] ''+QUEUED'')"
  by (simp add: process_def Let_def newMultiCommand_def get_k_def Command_def command_def
      Multi_def Exec_def cmdMulti_def cmdExec_def pipeline_stub_def At_def set_Error_def)

text \<open>
  Claim C2, amended. For a transactional batch whose commit-step reply is an error reply,
  \<open>process\<close> returns that error as the top-level error of the result. The elements of
  the result are left as the pipeline returned them: the replies to the begin marker, to
  the queued commands and to the commit marker, the last of them being the error reply.
\<close>

theorem process_commit_error:
  assumes "transaction mc" and "transaction (userCommands (Multi mc))"
    and "multiCommand (c_conn (userCommands (Multi mc)))
           (cmds (userCommands (Multi mc)) @ [(cmdExec, [])]) = (r, c')"
    and "elems r \<noteq> []" and "Error (last (elems r)) = Some e"
  shows "process multiCommand mc userCommands =
           Inr (set_Error r (Some e), (Exec (userCommands (Multi mc)))\<lparr>c_conn := c'\<rparr>)
     \<and> Error (set_Error r (Some e)) = Some e
     \<and> elems (set_Error r (Some e)) = elems r
     \<and> Error (last (elems (set_Error r (Some e)))) = Some e"
  using process_transaction [of mc userCommands multiCommand r c'] assms
  by (simp add: At_last set_Error_def)

theorem process_commit_error_witness:
  "process (pipeline_stub (MkReply (Some (RedisError ''EXECABORT'')) [] ''-'')) (newMultiCommand True 0)
     set_get =
     Inr (MkReply (Some (RedisError ''EXECABORT''))
            [MkReply None [] ''+OK'', MkReply None [] ''+QUEUED'', MkReply None [] ''+QUEUED'',
             MkReply (Some (RedisError ''EXECABORT'')) [] ''-'']
            ''*'',
          \<lparr>transaction = True, c_conn = 1,
             cmds = [(''MULTI'', []), (''SET'', [''k'', ''v'']), (''GET'', [''k'']), (''EXEC'', [])]\<rparr>)"
  using process_commit_error
    [of "newMultiCommand True 0" set_get
      "pipeline_stub (MkReply (Some (RedisError ''EXECABORT'')) [] ''-'')"
      "MkReply None [MkReply None [] ''+OK'', MkReply None [] ''+QUEUED'', MkReply None [] ''+QUEUED'',
          MkReply (Some (RedisError ''EXECABORT'')) [] ''-''] ''*''"
      1 "RedisError ''EXECABORT''"]
  by (simp add: newMultiCommand_def set_get_def Command_def command_def Multi_def Exec_def
      cmdMulti_def cmdExec_def pipeline_stub_def set_Error_def)

text \<open>
  Claim C3, at the inputs where it fails. A direct \<open>Flush\<close> leaves the queue empty. After
  \<open>process\<close> the queue still holds what was sent: the user's command outside a
  transaction, and the begin marker, the user's command and the commit marker in one.
\<close>

theorem process_leaves_queue:
  "cmds (snd (Flush echo_stub (get_k (newMultiCommand False 0)))) = []
   \<and> process echo_stub (newMultiCommand False 0) get_k =
       Inr (MkReply None [MkReply None [] ''GET''] ''*'',
            \<lparr>transaction = False, c_conn = 1, cmds = [(''GET'', [''k''])]\<rparr>)
   \<and> process (pipeline_stub (MkReply None [MkReply None [] ''$v''] ''*'')) (newMultiCommand True 0)
         get_k =
       Inr (MkReply None [MkReply None [] ''$v''] ''*'',
            \<lparr>transaction = True, c_conn = 1,
               cmds = [(''MULTI'', []), (''GET'', [''k'']), (''EXEC'', [])]\<rparr>)"
  by (simp add: Flush_def process_def Let_def newMultiCommand_def get_k_def Command_def
      command_def Multi_def Exec_def cmdMulti_def cmdExec_def pipeline_stub_def echo_stub_def
      At_def set_elems_def)

section \<open>Properties of the connection\<close>

text \<open>What a call of \<^verbatim>\<open>SetDeadline\<close> or \<^verbatim>\<open>Close\<close> leaves behind: one more recorded call.\<close>

lemma conn_SetDeadline_world:
  "snd (conn_SetDeadline c t w) = w\<lparr>calls := calls w @ [(raw_of c, SetDeadlineCall t)]\<rparr>"
  by (induction c) (simp_all add: raw_call_def Let_def split: prod.split)

lemma conn_Close_world:
  "snd (conn_Close c w) = w\<lparr>calls := calls w @ [(raw_of c, CloseCall)]\<rparr>"
  by (induction c) (simp_all add: raw_call_def Let_def split: prod.split)

lemma setDeadline_world:
  "setDeadline c timeout w =
     (if 0 < sint timeout
      then w\<lparr>calls := calls w @ [(raw_of c, SetDeadlineCall (now w + sint timeout))]\<rparr>
      else w)"
  by (simp add: setDeadline_def conn_SetDeadline_world time_Add_def word_sless_alt)

lemma TimeoutConn_neq: "TimeoutConn c t \<noteq> c"
  by (induction c) simp_all

text \<open>
  Claim C7. A \<open>Read\<close> or a \<open>Write\<close> of a deadline-enforcing stream is the \<open>Read\<close> or
  \<open>Write\<close> of the stream it wraps, run after exactly one more call on that stream when
  the timeout is strictly positive, the call that sets the deadline to the current time
  plus the timeout, and after no call at all when the timeout is zero or negative.
\<close>

theorem timeoutConn_deadline:
  "conn_Read (TimeoutConn c timeout) n w =
     conn_Read c n
       (if 0 < sint timeout
        then w\<lparr>calls := calls w @ [(raw_of c, SetDeadlineCall (now w + sint timeout))]\<rparr>
        else w)
   \<and> conn_Write (TimeoutConn c timeout) b w =
     conn_Write c b
       (if 0 < sint timeout
        then w\<lparr>calls := calls w @ [(raw_of c, SetDeadlineCall (now w + sint timeout))]\<rparr>
        else w)"
  by (simp add: setDeadline_world)

theorem timeoutConn_deadline_witness:
  "calls (snd (conn_Read (TimeoutConn (RawConn 7) 5) 16 quiet_world)) =
     [(7, SetDeadlineCall 1005), (7, ReadCall 16)]
   \<and> calls (snd (conn_Write (TimeoutConn (RawConn 7) 5) [42] quiet_world)) =
     [(7, SetDeadlineCall 1005), (7, WriteCall [42])]
   \<and> calls (snd (conn_Read (TimeoutConn (RawConn 7) 0) 16 quiet_world)) = [(7, ReadCall 16)]
   \<and> calls (snd (conn_Write (TimeoutConn (RawConn 7) (- 1)) [42] quiet_world)) =
     [(7, WriteCall [42])]"
  using timeoutConn_deadline [of "RawConn 7" 5 16 quiet_world "[42]"]
    timeoutConn_deadline [of "RawConn 7" 0 16 quiet_world "[42]"]
    timeoutConn_deadline [of "RawConn 7" "- 1" 16 quiet_world "[42]"]
  by (simp add: raw_call_def quiet_world_def)

text \<open>
  When \<open>Encode\<close> or \<open>Decode\<close> returns an error that is a \<^verbatim>\<open>net.Error\<close>, the last thing
  the call did was to close the stream.
\<close>

lemma Encode_net_error_closes:
  assumes "Encode brw_Flush cw m w = (err, w')" and "is_net_Error err"
  shows "closed (Conn cw) w' \<and> last (calls w') = (raw_of (Conn cw), CloseCall)"
  using assms
  by (auto simp add: Encode_def Let_def conn_Close_world closed_def split: prod.splits if_splits)

lemma Decode_net_error_closes:
  assumes "Decode cw u w = (err, w')" and "is_net_Error err"
  shows "closed (Conn cw) w' \<and> last (calls w') = (raw_of (Conn cw), CloseCall)"
  using assms
  by (auto simp add: Decode_def conn_Close_world closed_def split: prod.splits if_splits)

text \<open>
  Claim C6. When \<open>Encode\<close> or \<open>Decode\<close> returns a non-nil error that is not a
  \<^verbatim>\<open>net.Error\<close>, the error and the state are exactly those that the failing step (the
  marshal step, the flush step or the unmarshal step) produced: the call has not closed
  the connection, and the error reaches the caller unchanged.
\<close>

theorem non_net_error_no_close:
  assumes "\<not> is_net_Error (Some e)"
  shows "(Encode brw_Flush cw m w = (Some e, w') \<longrightarrow>
            MarshalRESP m (brw cw) w = (Some e, w')
            \<or> (\<exists>w1. MarshalRESP m (brw cw) w = (None, w1)
                    \<and> brw_Flush (Writer (brw cw)) w1 = (Some e, w')))
       \<and> (Decode cw u w = (Some e, w') \<longrightarrow> UnmarshalRESP u (Reader (brw cw)) w = (Some e, w'))"
  using assms
  by (auto simp add: Encode_def Decode_def Let_def split: prod.splits if_splits)

theorem non_net_error_no_close_witness:
  "Encode empty_flush (NewConn (RawConn 0)) reject_value quiet_world =
     (Some (OtherError ''malformed value''), quiet_world)
   \<and> MarshalRESP reject_value (brw (NewConn (RawConn 0))) quiet_world =
     (Some (OtherError ''malformed value''), quiet_world)
   \<and> Decode (NewConn (RawConn 0)) garbled_reply quiet_world =
     (Some (OtherError ''malformed value''), quiet_world)
   \<and> UnmarshalRESP garbled_reply (Reader (brw (NewConn (RawConn 0)))) quiet_world =
     (Some (OtherError ''malformed value''), quiet_world)
   \<and> \<not> closed (RawConn 0) quiet_world"
  using non_net_error_no_close
    [of "OtherError ''malformed value''" empty_flush "NewConn (RawConn 0)" reject_value
      quiet_world quiet_world garbled_reply]
  by (simp add: Encode_def Decode_def Let_def reject_value_def garbled_reply_def closed_def
      quiet_world_def)

text \<open>
  Claim C8. \<open>Do\<close> returns what the action's \<open>Run\<close> returns on this connection and leaves
  the state that \<open>Run\<close> leaves.
\<close>

theorem Do_delegates: "Do cw a w = Run a cw w"
  by (simp add: Do_def)

text \<open>
  Claim C10. \<open>NetConn\<close> of the connection that \<open>NewConn\<close> builds from a stream is that
  stream. For a connection that \<open>DialTimeout\<close> returns it is the deadline-enforcing
  wrapper, which is not the stream that was dialled.
\<close>

theorem NetConn_NewConn:
  "NetConn (NewConn c) = c
   \<and> (DialTimeout net_DialTimeout network addr timeout = Inr cw \<longrightarrow>
        net_DialTimeout network addr timeout = Inr c' \<longrightarrow>
        NetConn cw = TimeoutConn c' timeout \<and> NetConn cw \<noteq> c')"
proof (intro conjI impI)
  show "NetConn (NewConn c) = c"
    by (simp add: NetConn_def NewConn_def)
next
  assume dialled: "DialTimeout net_DialTimeout network addr timeout = Inr cw"
    and raw: "net_DialTimeout network addr timeout = Inr c'"
  from dialled raw have "cw = NewConn (TimeoutConn c' timeout)"
    by (simp add: DialTimeout_def)
  then have "NetConn cw = TimeoutConn c' timeout"
    by (simp add: NetConn_def NewConn_def)
  then show "NetConn cw = TimeoutConn c' timeout" and "NetConn cw \<noteq> c'"
    by (simp_all add: TimeoutConn_neq)
qed

theorem NetConn_NewConn_witness:
  "NetConn (NewConn (RawConn 3)) = RawConn 3
   \<and> DialTimeout (\<lambda>network addr timeout. Inr (RawConn 3)) ''tcp'' ''localhost:6379'' 5 =
       Inr (NewConn (TimeoutConn (RawConn 3) 5))
   \<and> NetConn (NewConn (TimeoutConn (RawConn 3) 5)) = TimeoutConn (RawConn 3) 5
   \<and> NetConn (NewConn (TimeoutConn (RawConn 3) 5)) \<noteq> RawConn 3"
  using NetConn_NewConn
    [of "RawConn 3" "\<lambda>network addr timeout. Inr (RawConn 3)" "''tcp''" "''localhost:6379''" 5
      "NewConn (TimeoutConn (RawConn 3) 5)" "RawConn 3"]
  by (simp add: DialTimeout_def)

text \<open>
  Claim C5, at the input where it fails. A write times out inside \<open>Encode\<close>: the call
  returns the \<^verbatim>\<open>net.Error\<close> and has closed the stream. On the closed connection a \<open>Do\<close>
  of an action that has nothing to do returns nil, and so does a \<open>Decode\<close> whose reply
  is already in the reader's buffer.
\<close>

theorem closed_conn_calls_succeed:
  "fst (Encode empty_flush (NewConn (RawConn 0)) write_through stalled_world) =
     Some (NetError ''i/o timeout'')
   \<and> calls (snd (Encode empty_flush (NewConn (RawConn 0)) write_through stalled_world)) =
     [(0, WriteCall [42]), (0, CloseCall)]
   \<and> closed (Conn (NewConn (RawConn 0)))
       (snd (Encode empty_flush (NewConn (RawConn 0)) write_through stalled_world))
   \<and> fst (Do (NewConn (RawConn 0)) idle_action
            (snd (Encode empty_flush (NewConn (RawConn 0)) write_through stalled_world))) = None
   \<and> fst (Decode (NewConn (RawConn 0)) buffered_reply
            (snd (Encode empty_flush (NewConn (RawConn 0)) write_through stalled_world))) = None"
  by (simp add: Encode_def Decode_def Do_def Let_def NewConn_def bufio_NewReadWriter_def
      bufio_NewReader_def bufio_NewWriter_def write_through_def idle_action_def
      buffered_reply_def stalled_world_def raw_call_def closed_def)

end
